theory Spec2Isabelle
  imports Complex_Main "HOL-Library.Sublist" "HOL-Library.Log_Nat"
begin

section \<open>Python strings\<close>

text \<open>
  A Python \<open>str\<close> is modelled as a \<open>string\<close>, a list of \<open>char\<close>. Isabelle's
  \<open>char\<close> has the code points 0 to 255, so the model covers the texts made of
  Latin-1 characters; on them \<open>str.lower\<close>, \<open>str.isspace\<close> and the classes
  \<open>\d\<close>, \<open>\s\<close>, \<open>\w\<close> of the \<open>re\<close> module are the functions below.
\<close>

text \<open>A range \<open>[lo-hi]\<close> of a character class compares code points.\<close>

definition in_range :: "char \<Rightarrow> char \<Rightarrow> char \<Rightarrow> bool" where
  "in_range lo hi c = ((of_char lo :: nat) \<le> of_char c \<and> (of_char c :: nat) \<le> of_char hi)"

definition is_digit :: "char \<Rightarrow> bool" where
  "is_digit c = in_range (CHR ''0'') (CHR ''9'') c"

definition is_lower_az :: "char \<Rightarrow> bool" where
  "is_lower_az c = in_range (CHR ''a'') (CHR ''z'') c"

definition is_upper_az :: "char \<Rightarrow> bool" where
  "is_upper_az c = in_range (CHR ''A'') (CHR ''Z'') c"

text \<open>\<open>str.isspace\<close> on one character: tab to carriage return, the four
  separators 28 to 31, space, NEL (133) and the no-break space (160).\<close>

definition is_space :: "char \<Rightarrow> bool" where
  "is_space c = (let n = (of_char c :: nat) in
     (9 \<le> n \<and> n \<le> 13) \<or> (28 \<le> n \<and> n \<le> 32) \<or> n = 133 \<or> n = 160)"

text \<open>\<open>str.lower\<close> on one character: A to Z, and the Latin-1 capitals 192 to 222
  except the multiplication sign 215, move up by 32.\<close>

definition lower_char :: "char \<Rightarrow> char" where
  "lower_char c = (let n = (of_char c :: nat) in
     if (65 \<le> n \<and> n \<le> 90) \<or> (192 \<le> n \<and> n \<le> 222 \<and> n \<noteq> 215)
     then char_of (n + 32) else c)"

definition lower :: "string \<Rightarrow> string" where
  "lower s = map lower_char s"

text \<open>The characters \<open>\w\<close> matches: letters, digits (also the superscripts and
  fractions of Latin-1, which \<open>str.isalnum\<close> accepts) and the underscore.\<close>

definition is_word :: "char \<Rightarrow> bool" where
  "is_word c = (let n = (of_char c :: nat) in
     is_digit c \<or> is_lower_az c \<or> is_upper_az c \<or> c = CHR ''_'' \<or>
     n = 170 \<or> n = 178 \<or> n = 179 \<or> n = 181 \<or> n = 185 \<or> n = 186 \<or>
     (188 \<le> n \<and> n \<le> 190) \<or> (192 \<le> n \<and> n \<noteq> 215 \<and> n \<noteq> 247))"

text \<open>\<open>sub in s\<close>: some suffix of \<open>s\<close> starts with \<open>sub\<close>.\<close>

fun contains :: "string \<Rightarrow> string \<Rightarrow> bool" where
  "contains [] sub = (sub = [])"
| "contains (c # cs) sub = (prefix sub (c # cs) \<or> contains cs sub)"

text \<open>\<open>s.startswith(p)\<close> is \<open>prefix p s\<close>.\<close>

text \<open>\<open>s.split(sep)\<close> for a one-character separator: the pieces between the
  separators, always at least one piece.\<close>

fun split_chr :: "char \<Rightarrow> string \<Rightarrow> string list" where
  "split_chr sep [] = [[]]"
| "split_chr sep (c # cs) =
     (if c = sep then [] # split_chr sep cs
      else (case split_chr sep cs of
              [] \<Rightarrow> [[c]]
            | p # ps \<Rightarrow> (c # p) # ps))"

text \<open>\<open>sep.join(parts)\<close>.\<close>

fun join :: "string \<Rightarrow> string list \<Rightarrow> string" where
  "join sep [] = []"
| "join sep [p] = p"
| "join sep (p # q # ps) = p @ sep @ join sep (q # ps)"

text \<open>\<open>s.strip()\<close>: white space removed at both ends.\<close>

definition strip :: "string \<Rightarrow> string" where
  "strip s = rev (dropWhile is_space (rev (dropWhile is_space s)))"

text \<open>\<open>s.split()\<close>: the maximal runs of characters that are not white space.\<close>

fun split_ws_acc :: "string \<Rightarrow> string \<Rightarrow> string list" where
  "split_ws_acc cur [] = (if cur = [] then [] else [rev cur])"
| "split_ws_acc cur (c # cs) =
     (if is_space c
      then (if cur = [] then split_ws_acc [] cs else rev cur # split_ws_acc [] cs)
      else split_ws_acc (c # cur) cs)"

definition split_ws :: "string \<Rightarrow> string list" where
  "split_ws s = split_ws_acc [] s"

text \<open>\<open>s.count(sub)\<close>: the occurrences of \<open>sub\<close> found from the left without
  overlap; for the empty \<open>sub\<close>, one more than the length.\<close>

fun count_from :: "nat \<Rightarrow> string \<Rightarrow> string \<Rightarrow> nat" where
  "count_from skip sub [] = 0"
| "count_from skip sub (c # cs) =
     (if skip = 0 \<and> prefix sub (c # cs)
      then Suc (count_from (length sub - 1) sub cs)
      else count_from (skip - 1) sub cs)"

definition count_str :: "string \<Rightarrow> string \<Rightarrow> nat" where
  "count_str s sub = (if sub = [] then Suc (length s) else count_from 0 sub s)"

text \<open>\<open>s.replace(old, new)\<close>: every occurrence of \<open>old\<close>, found from the left
  without overlap, becomes \<open>new\<close>; for the empty \<open>old\<close>, \<open>new\<close> is put
  before every character and at the end.\<close>

fun replace_from :: "nat \<Rightarrow> string \<Rightarrow> string \<Rightarrow> string \<Rightarrow> string" where
  "replace_from skip old new [] = []"
| "replace_from skip old new (c # cs) =
     (if 0 < skip then replace_from (skip - 1) old new cs
      else if prefix old (c # cs)
      then new @ replace_from (length old - 1) old new cs
      else c # replace_from 0 old new cs)"

definition replace_str :: "string \<Rightarrow> string \<Rightarrow> string \<Rightarrow> string" where
  "replace_str s old new =
     (if old = [] then concat (map (\<lambda>c. new @ [c]) s) @ new
      else replace_from 0 old new s)"

text \<open>\<open>str(n)\<close> for a natural number, as an f-string prints it.\<close>

definition digit_char :: "nat \<Rightarrow> char" where
  "digit_char d = char_of (48 + d)"

fun str_nat :: "nat \<Rightarrow> string" where
  "str_nat n = (if n < 10 then [digit_char n] else str_nat (n div 10) @ [digit_char (n mod 10)])"


declare str_nat.simps [simp del]

text \<open>The characters that a string literal of the theory cannot hold.\<close>

definition backslash :: char where
  "backslash = CHR 0x5C"

definition newline :: char where
  "newline = CHR 0x0A"

section \<open>Regular expressions of the \<open>re\<close> module\<close>

text \<open>
  The patterns of the program are values of \<open>regex\<close>, and \<open>ms\<close> is a backtracking
  matcher: it returns every way the pattern matches at the cursor, in the order in
  which \<open>re\<close> tries them (a greedy repetition takes the longest run first, a lazy
  one the shortest, an alternation its left branch), so the head of the list is the
  match that \<open>re\<close> finds. A match state holds the text before the cursor (reversed),
  the text after it and the groups captured so far.
\<close>

datatype citem = CChar char | CRange char char | CDigit | CSpace

fun citem_match :: "citem \<Rightarrow> char \<Rightarrow> bool" where
  "citem_match (CChar a) c = (c = a)"
| "citem_match (CRange lo hi) c = in_range lo hi c"
| "citem_match CDigit c = is_digit c"
| "citem_match CSpace c = is_space c"

datatype regex =
    Eps
  | Lit char
  | Dot
  | Cls "citem list"
  | NCls "citem list"
  | Seq regex regex
  | Alt regex regex
  | Star regex
  | LazyStar regex
  | Group nat regex
  | Bol
  | WordB

text \<open>\<open>r+\<close> is \<open>r\<close> followed by \<open>r*\<close>.\<close>

definition Plus :: "regex \<Rightarrow> regex" where
  "Plus r = Seq r (Star r)"

definition seqs :: "regex list \<Rightarrow> regex" where
  "seqs rs = foldr Seq rs Eps"

definition lits :: "string \<Rightarrow> regex" where
  "lits s = seqs (map Lit s)"

record flags =
  ignorecase :: bool
  multiline :: bool

definition no_flags :: flags where
  "no_flags = \<lparr>ignorecase = False, multiline = False\<rparr>"

record mstate =
  behind :: string
  rest :: string
  groups :: "(nat \<times> string) list"

definition start_state :: "string \<Rightarrow> string \<Rightarrow> mstate" where
  "start_state b s = \<lparr>behind = b, rest = s, groups = []\<rparr>"

text \<open>One character is consumed when the test \<open>p\<close> accepts it.\<close>

definition step_char :: "(char \<Rightarrow> bool) \<Rightarrow> mstate \<Rightarrow> mstate list" where
  "step_char p s =
     (case rest s of
        [] \<Rightarrow> []
      | c # cs \<Rightarrow> if p c then [s\<lparr>behind := c # behind s, rest := cs\<rparr>] else [])"

text \<open>Under \<open>IGNORECASE\<close> a literal matches a character with the same lower-case
  form, and a class matches a character when it holds it or its lower-case form.\<close>

definition lit_match :: "flags \<Rightarrow> char \<Rightarrow> char \<Rightarrow> bool" where
  "lit_match fl a c = (if ignorecase fl then lower_char c = lower_char a else c = a)"

definition cls_match :: "flags \<Rightarrow> citem list \<Rightarrow> char \<Rightarrow> bool" where
  "cls_match fl its c =
     (list_ex (\<lambda>it. citem_match it c) its \<or>
      (ignorecase fl \<and> list_ex (\<lambda>it. citem_match it (lower_char c)) its))"

text \<open>\<open>^\<close> holds at the start of the text and, under \<open>MULTILINE\<close>, after a
  newline; \<open>\b\<close> holds where exactly one of the two neighbours is a word
  character.\<close>

definition at_bol :: "flags \<Rightarrow> mstate \<Rightarrow> bool" where
  "at_bol fl s =
     (case behind s of [] \<Rightarrow> True | c # _ \<Rightarrow> multiline fl \<and> c = newline)"

definition at_word_boundary :: "mstate \<Rightarrow> bool" where
  "at_word_boundary s =
     ((case behind s of [] \<Rightarrow> False | c # _ \<Rightarrow> is_word c) \<noteq>
      (case rest s of [] \<Rightarrow> False | c # _ \<Rightarrow> is_word c))"

definition shorter :: "mstate \<Rightarrow> mstate \<Rightarrow> bool" where
  "shorter s t = (length (rest t) < length (rest s))"

text \<open>The text consumed between two states of one match.\<close>

definition consumed :: "mstate \<Rightarrow> mstate \<Rightarrow> string" where
  "consumed s t = take (length (rest s) - length (rest t)) (rest s)"

definition set_group :: "nat \<Rightarrow> mstate \<Rightarrow> mstate \<Rightarrow> mstate" where
  "set_group n s t = t\<lparr>groups := (n, consumed s t) # groups t\<rparr>"

text \<open>A repetition goes on only after an iteration that consumed a character;
  every repeated pattern of the program consumes one.\<close>

function ms :: "flags \<Rightarrow> regex \<Rightarrow> mstate \<Rightarrow> mstate list" where
  "ms fl Eps s = [s]"
| "ms fl (Lit a) s = step_char (lit_match fl a) s"
| "ms fl Dot s = step_char (\<lambda>c. c \<noteq> newline) s"
| "ms fl (Cls its) s = step_char (cls_match fl its) s"
| "ms fl (NCls its) s = step_char (\<lambda>c. \<not> cls_match fl its c) s"
| "ms fl (Seq r1 r2) s = concat (map (ms fl r2) (ms fl r1 s))"
| "ms fl (Alt r1 r2) s = ms fl r1 s @ ms fl r2 s"
| "ms fl (Star r) s =
     concat (map (ms fl (Star r)) (filter (shorter s) (ms fl r s))) @ [s]"
| "ms fl (LazyStar r) s =
     s # concat (map (ms fl (LazyStar r)) (filter (shorter s) (ms fl r s)))"
| "ms fl (Group n r) s = map (set_group n s) (ms fl r s)"
| "ms fl Bol s = (if at_bol fl s then [s] else [])"
| "ms fl WordB s = (if at_word_boundary s then [s] else [])"
  by pat_completeness auto
termination
  by (relation "inv_image (less_than <*lex*> less_than)
        (\<lambda>(fl, r, s). (size r, length (rest s)))")
     (auto simp: shorter_def)


text \<open>\<open>pattern.match(s)\<close>: a match at the start of \<open>s\<close>.\<close>

definition re_match :: "flags \<Rightarrow> regex \<Rightarrow> string \<Rightarrow> mstate option" where
  "re_match fl r s = (case ms fl r (start_state [] s) of [] \<Rightarrow> None | m # _ \<Rightarrow> Some m)"

text \<open>\<open>re.search(pattern, s)\<close>: the match at the leftmost position that has
  one.\<close>

fun search_from :: "flags \<Rightarrow> regex \<Rightarrow> string \<Rightarrow> string \<Rightarrow> mstate option" where
  "search_from fl r b [] =
     (case ms fl r (start_state b []) of [] \<Rightarrow> None | m # _ \<Rightarrow> Some m)"
| "search_from fl r b (c # cs) =
     (case ms fl r (start_state b (c # cs)) of
        [] \<Rightarrow> search_from fl r (c # b) cs
      | m # _ \<Rightarrow> Some m)"

definition re_search :: "flags \<Rightarrow> regex \<Rightarrow> string \<Rightarrow> mstate option" where
  "re_search fl r s = search_from fl r [] s"

definition found :: "mstate option \<Rightarrow> bool" where
  "found m = (m \<noteq> None)"

text \<open>\<open>match.group(n)\<close>, for a group that took part in the match.\<close>

definition group :: "mstate \<Rightarrow> nat \<Rightarrow> string" where
  "group m n = (case map_of (groups m) n of None \<Rightarrow> [] | Some g \<Rightarrow> g)"

text \<open>The matches that \<open>re.sub\<close> and \<open>re.findall\<close> walk through: from the left,
  each search starting where the last match ended. Each match comes with the text
  skipped before it and the text it matched; the text after the last match is
  returned beside the list. After an empty match the scan moves one character on.\<close>

function scan :: "flags \<Rightarrow> regex \<Rightarrow> string \<Rightarrow> string \<Rightarrow> string
    \<Rightarrow> (string \<times> string \<times> mstate) list \<times> string" where
  "scan fl r skipped b [] =
     (case ms fl r (start_state b []) of
        [] \<Rightarrow> ([], rev skipped)
      | m # _ \<Rightarrow> ([(rev skipped, [], m)], []))"
| "scan fl r skipped b (c # cs) =
     (case ms fl r (start_state b (c # cs)) of
        [] \<Rightarrow> scan fl r (c # skipped) (c # b) cs
      | m # _ \<Rightarrow>
          if length (rest m) < Suc (length cs)
          then (case scan fl r [] (behind m) (rest m) of
                  (later, remainder) \<Rightarrow>
                    ((rev skipped, consumed (start_state b (c # cs)) m, m) # later, remainder))
          else (case scan fl r [c] (c # b) cs of
                  (later, remainder) \<Rightarrow> ((rev skipped, [], m) # later, remainder)))"
  by pat_completeness auto
termination
  by (relation "measure (\<lambda>(fl, r, skipped, b, s). length s)") auto

text \<open>\<open>re.findall\<close> for a pattern without a group (the matched texts) and for a
  pattern with one group (the texts of the group).\<close>

definition re_findall :: "flags \<Rightarrow> regex \<Rightarrow> string \<Rightarrow> string list" where
  "re_findall fl r s = map (\<lambda>(sk, txt, m). txt) (fst (scan fl r [] [] s))"

definition re_findall1 :: "flags \<Rightarrow> regex \<Rightarrow> string \<Rightarrow> string list" where
  "re_findall1 fl r s = map (\<lambda>(sk, txt, m). group m 1) (fst (scan fl r [] [] s))"

text \<open>\<open>re.sub(pattern, repl, s)\<close> with a function \<open>repl\<close> of the matched text and
  the match; a template such as \<open>\\frac{\1}{\2}\<close> is a list of literal pieces and
  group references.\<close>

definition re_sub_fun :: "flags \<Rightarrow> regex \<Rightarrow> (string \<Rightarrow> mstate \<Rightarrow> string) \<Rightarrow> string \<Rightarrow> string" where
  "re_sub_fun fl r f s =
     (case scan fl r [] [] s of
        (found_ms, remainder) \<Rightarrow>
          concat (map (\<lambda>(sk, txt, m). sk @ f txt m) found_ms) @ remainder)"

datatype ritem = RLit string | RGrp nat

fun expand :: "ritem list \<Rightarrow> mstate \<Rightarrow> string" where
  "expand [] m = []"
| "expand (RLit t # its) m = t @ expand its m"
| "expand (RGrp n # its) m = group m n @ expand its m"

definition re_sub :: "flags \<Rightarrow> regex \<Rightarrow> ritem list \<Rightarrow> string \<Rightarrow> string" where
  "re_sub fl r tmpl s = re_sub_fun fl r (\<lambda>txt m. expand tmpl m) s"


text \<open>Pieces that many patterns share: \<open>\d\<close>, \<open>\s\<close>, \<open>[a-zA-Z]\<close>,
  \<open>[a-zA-Z0-9]\<close> and a class of listed characters.\<close>

definition digit :: regex where
  "digit = Cls [CDigit]"

definition space :: regex where
  "space = Cls [CSpace]"

definition letter :: regex where
  "letter = Cls [CRange (CHR ''a'') (CHR ''z''), CRange (CHR ''A'') (CHR ''Z'')]"

definition alnum :: regex where
  "alnum = Cls [CRange (CHR ''a'') (CHR ''z''), CRange (CHR ''A'') (CHR ''Z''),
                CRange (CHR ''0'') (CHR ''9'')]"

definition one_of :: "string \<Rightarrow> regex" where
  "one_of cs = Cls (map CChar cs)"

definition none_of :: "string \<Rightarrow> regex" where
  "none_of cs = NCls (map CChar cs)"

section \<open>Validator (src/processors/validator.py)\<close>

text \<open>\<open>_check_balanced_braces\<close>: the loop over the characters with its counter,
  leaving with \<open>False\<close> as soon as the counter is negative.\<close>

fun braces_loop :: "int \<Rightarrow> string \<Rightarrow> bool" where
  "braces_loop count [] = (count = 0)"
| "braces_loop count (c # cs) =
     (let count' = (if c = CHR ''{'' then count + 1
                    else if c = CHR ''}'' then count - 1
                    else count)
      in if count' < 0 then False else braces_loop count' cs)"

definition check_balanced_braces :: "string \<Rightarrow> bool" where
  "check_balanced_braces latex = braces_loop 0 latex"

text \<open>\<open>_check_balanced_delimiters\<close>.\<close>

definition begin_env_pattern :: regex where
  \<comment> \<open>\<open>\\begin\{([^}]+)\}\<close>\<close>
  "begin_env_pattern =
     seqs [Lit backslash, lits ''begin{'', Group 1 (Plus (none_of ''}'')), Lit (CHR ''}'')]"

definition check_balanced_delimiters :: "string \<Rightarrow> bool" where
  "check_balanced_delimiters latex =
     (let dollar_count = int (count_str latex ''$'') - int (count_str latex (backslash # ''$''))
      in if dollar_count mod 2 \<noteq> 0 then False
         else if count_str latex (backslash # ''['') \<noteq> count_str latex (backslash # '']'')
         then False
         else if count_str latex (backslash # ''('') \<noteq> count_str latex (backslash # '')'')
         then False
         else list_all
                (\<lambda>env. count_str latex (backslash # ''begin{'' @ env @ ''}'') =
                       count_str latex (backslash # ''end{'' @ env @ ''}''))
                (re_findall1 no_flags begin_env_pattern latex))"

text \<open>\<open>_check_common_latex_errors\<close>.\<close>

definition double_sub_pattern :: regex where
  \<comment> \<open>\<open>_.*_\<close>\<close>
  "double_sub_pattern = seqs [Lit (CHR ''_''), Star Dot, Lit (CHR ''_'')]"

definition double_sup_pattern :: regex where
  \<comment> \<open>\<open>\^.*\^\<close>\<close>
  "double_sup_pattern = seqs [Lit (CHR ''^''), Star Dot, Lit (CHR ''^'')]"

definition missing_braces_pattern :: regex where
  \<comment> \<open>\<open>\\(frac|sqrt|sum|int)\s+[^{]\<close>\<close>
  "missing_braces_pattern =
     seqs [Lit backslash,
           Group 1 (Alt (lits ''frac'') (Alt (lits ''sqrt'') (Alt (lits ''sum'') (lits ''int'')))),
           Plus space, none_of ''{'']"

definition invalid_frac_pattern :: regex where
  \<comment> \<open>\<open>\\frac[^{]\<close>\<close>
  "invalid_frac_pattern = seqs [Lit backslash, lits ''frac'', none_of ''{'']"

definition check_common_latex_errors :: "string \<Rightarrow> string list" where
  "check_common_latex_errors latex =
     (if found (re_search no_flags double_sub_pattern latex) \<or>
         found (re_search no_flags double_sup_pattern latex)
      then [''Double subscripts or superscripts detected''] else []) @
     (if found (re_search no_flags missing_braces_pattern latex)
      then [''Missing braces after command''] else []) @
     (if found (re_search no_flags invalid_frac_pattern latex)
      then [''Invalid fraction syntax''] else [])"

text \<open>\<open>_check_invalid_commands\<close>.\<close>

definition valid_commands :: "string list" where
  "valid_commands =
     [''frac'', ''sqrt'', ''sum'', ''int'', ''prod'', ''lim'',
      ''sin'', ''cos'', ''tan'', ''log'', ''ln'', ''exp'',
      ''alpha'', ''beta'', ''gamma'', ''delta'', ''theta'',
      ''lambda'', ''mu'', ''sigma'', ''phi'', ''omega'',
      ''infty'', ''partial'', ''nabla'', ''times'', ''cdot'',
      ''leq'', ''geq'', ''neq'', ''approx'', ''equiv'',
      ''subseteq'', ''supseteq'', ''in'', ''notin'',
      ''cup'', ''cap'', ''emptyset'', ''forall'', ''exists'',
      ''rightarrow'', ''leftarrow'', ''Rightarrow'', ''Leftarrow'',
      ''text'', ''textbf'', ''textit'', ''mathbf'', ''mathit'',
      ''begin'', ''end'', ''left'', ''right'', ''big'', ''Big'',
      ''binom'', ''choose'', ''pmatrix'', ''bmatrix'', ''vmatrix'']"

definition command_pattern :: regex where
  \<comment> \<open>\<open>\\([a-zA-Z]+)\<close>\<close>
  "command_pattern = seqs [Lit backslash, Group 1 (Plus letter)]"

definition check_invalid_commands :: "string \<Rightarrow> string list" where
  "check_invalid_commands latex =
     filter (\<lambda>cmd. cmd \<notin> set valid_commands) (re_findall1 no_flags command_pattern latex)"

text \<open>\<open>validate_latex\<close>: the four checks in turn, every message appended to the
  list of errors.\<close>

definition validate_latex :: "string \<Rightarrow> string list" where
  "validate_latex latex =
     (if \<not> check_balanced_braces latex then [''Unbalanced braces in LaTeX''] else []) @
     (if \<not> check_balanced_delimiters latex then [''Unbalanced math delimiters''] else []) @
     check_common_latex_errors latex @
     (let invalid_commands = check_invalid_commands latex
      in if invalid_commands \<noteq> []
         then [''Invalid LaTeX commands: '' @ join '', '' invalid_commands] else [])"

text \<open>The running counter of the specification: after a prefix of the text, the
  number of opening braces read minus the number of closing braces read.\<close>

definition brace_counter :: "string \<Rightarrow> int" where
  "brace_counter s =
     int (length (filter (\<lambda>c. c = CHR ''{'') s)) - int (length (filter (\<lambda>c. c = CHR ''}'') s))"


section \<open>Double-precision numbers\<close>

text \<open>
  A Python \<open>float\<close> is an IEEE 754 double. The confidence of a question is a sum of
  a few literals, so its arithmetic is modelled exactly: a double is the rational
  number it stands for, a literal is read as the nearest double, and an addition
  is the exact sum rounded to the nearest double, a tie going to the even
  significand. The values of the program are between 0.1 and 1.1, far from
  overflow and from the subnormal numbers, which are left out.
\<close>

text \<open>The exponent of a positive rational: \<open>2 ^ e \<le> x < 2 ^ (e + 1)\<close>.\<close>

definition binade :: "rat \<Rightarrow> int" where
  "binade x =
     (case quotient_of x of
        (p, q) \<Rightarrow>
          (let e0 = bitlen p - bitlen q
           in if x < 2 powi e0 then e0 - 1 else e0))"

definition round_half_even :: "rat \<Rightarrow> int" where
  "round_half_even m =
     (let f = \<lfloor>m\<rfloor>; r = m - of_int f
      in if r < 1 / 2 then f
         else if 1 / 2 < r then f + 1
         else if even f then f else f + 1)"

text \<open>The nearest double: a significand of 53 bits.\<close>

definition dbl :: "rat \<Rightarrow> rat" where
  "dbl x =
     (if x = 0 then 0
      else (let a = \<bar>x\<bar>; e = binade a; n = round_half_even (a * 2 powi (52 - e))
            in sgn x * of_int n * 2 powi (e - 52)))"

definition fadd :: "rat \<Rightarrow> rat \<Rightarrow> rat" where
  "fadd x y = dbl (x + y)"

section \<open>Question extractor (src/extractors/question_extractor.py)\<close>

datatype QuestionType = ILLUSTRATION | EXERCISE | EXAMPLE | PRACTICE | OBJECTIVE | SUBJECTIVE

text \<open>The dataclass \<open>Question\<close>; its field \<open>text\<close> is \<open>q_text\<close> here.\<close>

record Question =
  q_text :: string
  question_type :: QuestionType
  number :: "string option"
  page_number :: "int option"
  confidence :: rat
  metadata :: "(string \<times> string) list option"

text \<open>The exceptions of the program that the model raises.\<close>

datatype error = ExtractionError string | LLMError string | RetryError | ZeroDivisionError

text \<open>The argument of \<open>extract\<close> is any Python value; only a \<open>str\<close> is a valid
  source.\<close>

datatype pyvalue = PyStr string | PyNone | PyInt int | PyFloat rat | PyList "pyvalue list"

definition validate_source :: "pyvalue \<Rightarrow> bool" where
  "validate_source source = (case source of PyStr s \<Rightarrow> 0 < length s | _ \<Rightarrow> False)"

text \<open>\<open>QUESTION_PATTERNS\<close> of src/core/constants.py, compiled with \<open>re.MULTILINE\<close>.\<close>

definition QUESTION_PATTERNS :: "regex list" where
  "QUESTION_PATTERNS =
     [seqs [Bol, Plus digit, Lit (CHR ''.'')],
      seqs [Bol, Lit (CHR ''Q''), Plus digit],
      seqs [Bol, lits ''Example '', Plus digit],
      seqs [Bol, lits ''Illustration '', Plus digit],
      seqs [Bol, lits ''Exercise''],
      seqs [Bol, lits ''Problem'']]"

definition multiline_flags :: flags where
  "multiline_flags = \<lparr>ignorecase = False, multiline = True\<rparr>"

definition paren_letter_pattern :: regex where
  \<comment> \<open>\<open>^\([a-z]\)\<close>\<close>
  "paren_letter_pattern =
     seqs [Bol, Lit (CHR ''(''), Cls [CRange (CHR ''a'') (CHR ''z'')], Lit (CHR '')'')]"

definition roman_pattern :: regex where
  \<comment> \<open>\<open>^[IVX]+\.\<close>\<close>
  "roman_pattern = seqs [Bol, Plus (one_of ''IVX''), Lit (CHR ''.'')]"

definition is_question_start :: "string \<Rightarrow> bool" where
  "is_question_start line0 =
     (let line = strip line0
      in if list_ex (\<lambda>pattern. found (re_match multiline_flags pattern line)) QUESTION_PATTERNS
         then True
         else if found (re_match no_flags paren_letter_pattern line) then True
         else if found (re_match no_flags roman_pattern line) then True
         else False)"

text \<open>\<open>_split_into_blocks\<close>: the loop over the lines, with the blocks closed so
  far and the lines of the current block.\<close>

fun split_loop :: "string list \<Rightarrow> string list \<Rightarrow> string list \<Rightarrow> string list" where
  "split_loop [] blocks current_block =
     (if current_block \<noteq> [] then blocks @ [join [newline] current_block] else blocks)"
| "split_loop (line # lines) blocks current_block =
     (if is_question_start line
      then split_loop lines
             (if current_block \<noteq> [] then blocks @ [join [newline] current_block] else blocks)
             [line]
      else split_loop lines blocks (current_block @ [line]))"

definition split_into_blocks :: "string \<Rightarrow> string list" where
  "split_into_blocks txt = split_loop (split_chr newline txt) [] []"

text \<open>\<open>_contains_math\<close>. The fourth pattern is a class of the four symbols for
  integral, sum, product and root; none of them is a Latin-1 character, so on the
  texts of the model the class holds no character.\<close>

definition math_indicators :: "regex list" where
  "math_indicators =
     [seqs [Plus digit, one_of ''+-*/'', Plus digit],
      seqs [one_of ''xy'', Lit (CHR ''='')],
      seqs [Lit backslash, Plus letter],
      Cls [],
      Lit (CHR ''^''),
      lits ''_{'',
      seqs [Lit backslash, lits ''frac''],
      seqs [Lit backslash, lits ''sqrt''],
      seqs [Lit (CHR ''P''), Lit (CHR ''(''), Plus (none_of '')''), Lit (CHR '')'')]]"

definition contains_math :: "string \<Rightarrow> bool" where
  "contains_math txt = list_ex (\<lambda>pattern. found (re_search no_flags pattern txt)) math_indicators"

definition question_indicators :: "string list" where
  "question_indicators =
     [''?'', ''Find'', ''Calculate'', ''Prove'', ''Show that'', ''Determine'', ''Evaluate'',
      ''Solve'', ''If'', ''When'', ''What'', ''Which'', ''How'', ''Why'', ''Verify'',
      ''Derive'', ''Explain'', ''State'', ''Define'', ''Given'']"

definition is_question_block :: "string \<Rightarrow> bool" where
  "is_question_block block =
     (let block_lower = lower block
      in if list_ex (\<lambda>indicator. contains block_lower (lower indicator)) question_indicators
         then True
         else if contains_math block then True
         else False)"

text \<open>\<open>_clean_text\<close>.\<close>

definition page_pattern :: regex where
  \<comment> \<open>\<open>Page \d+\<close>\<close>
  "page_pattern = seqs [lits ''Page '', Plus digit]"

definition header_pattern :: regex where
  \<comment> \<open>\<open>RD SHARMA.*?Class.*?\d+\<close>, used with \<open>re.IGNORECASE\<close>\<close>
  "header_pattern =
     seqs [lits ''RD SHARMA'', LazyStar Dot, lits ''Class'', LazyStar Dot, Plus digit]"

definition ignorecase_flags :: flags where
  "ignorecase_flags = \<lparr>ignorecase = True, multiline = False\<rparr>"

definition clean_text :: "string \<Rightarrow> string" where
  "clean_text txt0 =
     (let txt = re_sub no_flags (Plus space) [RLit '' ''] txt0;
          txt = re_sub no_flags page_pattern [] txt;
          txt = re_sub ignorecase_flags header_pattern [] txt
      in strip txt)"

text \<open>\<open>_determine_question_type\<close>.\<close>

definition determine_question_type :: "string \<Rightarrow> QuestionType" where
  "determine_question_type txt =
     (let text_lower = lower txt
      in if contains text_lower ''illustration'' then ILLUSTRATION
         else if contains text_lower ''example'' then EXAMPLE
         else if contains text_lower ''exercise'' then EXERCISE
         else if contains text_lower ''objective'' then OBJECTIVE
         else PRACTICE)"

text \<open>\<open>_extract_question_number\<close>: the first group of the first pattern that is
  found.\<close>

definition number_patterns :: "regex list" where
  "number_patterns =
     [seqs [Bol, Group 1 (Plus digit), Lit (CHR ''.'')],
      seqs [Bol, Lit (CHR ''Q''), Group 1 (Plus digit)],
      seqs [Bol, lits ''Question '', Group 1 (Plus digit)],
      seqs [Bol, Lit (CHR ''(''), Group 1 (Cls [CRange (CHR ''a'') (CHR ''z'')]), Lit (CHR '')'')],
      seqs [Bol, Group 1 (Plus (one_of ''IVX'')), Lit (CHR ''.'')]]"

fun first_group :: "regex list \<Rightarrow> string \<Rightarrow> string option" where
  "first_group [] txt = None"
| "first_group (pattern # patterns) txt =
     (case re_search no_flags pattern txt of
        Some m \<Rightarrow> Some (group m 1)
      | None \<Rightarrow> first_group patterns txt)"

definition extract_question_number :: "string \<Rightarrow> string option" where
  "extract_question_number txt = first_group number_patterns txt"

text \<open>The truth value of an optional string in an \<open>if\<close>: \<open>None\<close> and the empty
  string are false.\<close>

definition truthy :: "string option \<Rightarrow> bool" where
  "truthy v = (case v of None \<Rightarrow> False | Some s \<Rightarrow> s \<noteq> [])"

text \<open>\<open>_calculate_confidence\<close>.\<close>

definition question_keywords :: "string list" where
  "question_keywords = [''find'', ''prove'', ''show'', ''calculate'', ''determine'']"

definition calculate_confidence :: "string \<Rightarrow> rat" where
  "calculate_confidence txt =
     (let score = dbl 0.5;
          score = (if contains txt ''?'' then fadd score (dbl 0.2) else score);
          score = (if contains_math txt then fadd score (dbl 0.1) else score);
          score = (if truthy (extract_question_number txt) then fadd score (dbl 0.1)
                   else score);
          score = (if list_ex (\<lambda>kw. contains (lower txt) kw) question_keywords
                   then fadd score (dbl 0.1) else score)
      in min score (dbl 1.0))"

text \<open>\<open>_extract_question\<close>.\<close>

definition extract_question :: "string \<Rightarrow> Question option" where
  "extract_question block =
     (let cleaned = clean_text block
      in if cleaned = [] then None
         else Some \<lparr>q_text = cleaned,
                    question_type = determine_question_type block,
                    number = extract_question_number block,
                    page_number = None,
                    confidence = calculate_confidence block,
                    metadata = None\<rparr>)"

text \<open>\<open>extract\<close>: the loop over the blocks, and \<open>postprocess\<close> of the base class,
  which returns its argument.\<close>

fun extract_loop :: "string list \<Rightarrow> Question list \<Rightarrow> Question list" where
  "extract_loop [] questions = questions"
| "extract_loop (block # blocks) questions =
     (if is_question_block block
      then (case extract_question block of
              Some question \<Rightarrow> extract_loop blocks (questions @ [question])
            | None \<Rightarrow> extract_loop blocks questions)
      else extract_loop blocks questions)"

definition postprocess :: "Question list \<Rightarrow> Question list" where
  "postprocess extracted = extracted"

definition "extract" :: "pyvalue \<Rightarrow> error + Question list" where
  "extract source =
     (if \<not> validate_source source then Inl (ExtractionError ''Invalid source text'')
      else (case source of
              PyStr s \<Rightarrow> Inr (postprocess (extract_loop (split_into_blocks s) []))
            | _ \<Rightarrow> Inl (ExtractionError ''Invalid source text'')))"

section \<open>Embedding generator (src/rag/embeddings.py)\<close>

text \<open>
  An embedding is the list of the numbers of the vector. The embedding service,
  \<open>genai.embed_content\<close>, is not part of the program: it is a parameter of the
  model, a function that takes the text and the state of the service and gives the
  new state together with either the message of the exception it raises or the
  embedding it returns. The state lets a service fail on one call and answer on
  the next.
\<close>

type_synonym embedding = "rat list"

type_synonym 'st service = "string \<Rightarrow> 'st \<Rightarrow> (string + embedding) \<times> 'st"

text \<open>The body of \<open>generate_embedding\<close>: one call of the service, an exception
  of which is raised again as an \<open>LLMError\<close>.\<close>

definition embed_content :: "'st service \<Rightarrow> string \<Rightarrow> 'st \<Rightarrow> (error + embedding) \<times> 'st" where
  "embed_content svc txt st =
     (case svc txt st of
        (Inr v, st') \<Rightarrow> (Inr v, st')
      | (Inl e, st') \<Rightarrow> (Inl (LLMError (''Failed to generate embedding: '' @ e)), st'))"

text \<open>The decorator \<open>retry\<close> with \<open>stop_after_attempt\<close>: the body is called again
  after an exception until the attempts are used up, and then \<open>RetryError\<close> is
  raised. The waiting between two attempts takes time only.\<close>

fun retry_call :: "nat \<Rightarrow> ('st \<Rightarrow> (error + 'a) \<times> 'st) \<Rightarrow> 'st \<Rightarrow> (error + 'a) \<times> 'st" where
  "retry_call 0 body st = (Inl RetryError, st)"
| "retry_call (Suc attempts) body st =
     (case body st of
        (Inr v, st') \<Rightarrow> (Inr v, st')
      | (Inl e, st') \<Rightarrow> retry_call attempts body st')"

definition generate_embedding :: "'st service \<Rightarrow> string \<Rightarrow> 'st \<Rightarrow> (error + embedding) \<times> 'st" where
  "generate_embedding svc txt st = retry_call 3 (embed_content svc txt) st"

text \<open>\<open>np.zeros(768)\<close>.\<close>

definition zero_vector :: embedding where
  "zero_vector = replicate 768 0"

text \<open>\<open>generate_batch_embeddings\<close>: the loop over the texts, with the embeddings
  gathered so far; the \<open>except\<close> clause takes every error of
  \<open>generate_embedding\<close>.\<close>

fun batch_loop ::
  "'st service \<Rightarrow> string list \<Rightarrow> embedding list \<Rightarrow> 'st \<Rightarrow> (error + embedding list) \<times> 'st" where
  "batch_loop svc [] embeddings st = (Inr embeddings, st)"
| "batch_loop svc (txt # texts) embeddings st =
     (case generate_embedding svc txt st of
        (Inr embedding, st') \<Rightarrow> batch_loop svc texts (embeddings @ [embedding]) st'
      | (Inl e, st') \<Rightarrow> batch_loop svc texts (embeddings @ [zero_vector]) st')"

definition generate_batch_embeddings ::
  "'st service \<Rightarrow> string list \<Rightarrow> 'st \<Rightarrow> (error + embedding list) \<times> 'st" where
  "generate_batch_embeddings svc texts st = batch_loop svc texts [] st"

text \<open>The embedding that the batch keeps for a text when the service is in the
  state \<open>st\<close>.\<close>

definition embedding_or_zero :: "'st service \<Rightarrow> string \<Rightarrow> 'st \<Rightarrow> embedding" where
  "embedding_or_zero svc txt st =
     (case fst (generate_embedding svc txt st) of Inr v \<Rightarrow> v | Inl e \<Rightarrow> zero_vector)"

text \<open>A service for the examples: it raises at every call for the text \<open>bad\<close>,
  returns an embedding for every other text, and counts its calls.\<close>

definition failing_on :: "string \<Rightarrow> nat service" where
  "failing_on bad txt calls =
     (if txt = bad then Inl ''unavailable'' else Inr [of_nat (length txt), 1], Suc calls)"

section \<open>Vector store (src/rag/vector_store.py) and indexing\<close>

text \<open>
  The collection of ChromaDB is not part of the program. The model keeps what the
  program hands to it: the state of the vector store is the list of the calls of
  \<open>collection.add\<close>, each with its documents, embeddings, metadata and
  identifiers. A metadata dictionary is a list of keys with their values.
\<close>

type_synonym metadata_dict = "(string \<times> pyvalue) list"

record add_call =
  call_documents :: "string list"
  call_embeddings :: "embedding list"
  call_metadatas :: "metadata_dict list"
  call_ids :: "string list"

type_synonym collection = "add_call list"

text \<open>\<open>VectorStore.add_documents\<close>; an argument left out is \<open>None\<close>.\<close>

definition add_documents ::
  "string list \<Rightarrow> embedding list \<Rightarrow> metadata_dict list option \<Rightarrow> string list option \<Rightarrow>
   collection \<Rightarrow> collection" where
  "add_documents documents embeddings metadatas0 ids0 coll =
     (let ids = (case ids0 of
                   None \<Rightarrow> map (\<lambda>i. ''doc_'' @ str_nat i) [0..<length documents]
                 | Some given \<Rightarrow> given);
          metadatas = (case metadatas0 of
                         None \<Rightarrow> replicate (length documents) []
                       | Some given \<Rightarrow> given);
          embeddings_list = map (\<lambda>emb. emb) embeddings
      in coll @ [\<lparr>call_documents = documents, call_embeddings = embeddings_list,
                  call_metadatas = metadatas, call_ids = ids\<rparr>])"

text \<open>\<open>Retriever.add_documents_to_index\<close>: the embeddings of the batch, then
  \<open>add_documents\<close> without identifiers. The state is the state of the service
  and the collection.\<close>

definition add_documents_to_index ::
  "'st service \<Rightarrow> string list \<Rightarrow> metadata_dict list option \<Rightarrow> 'st \<times> collection \<Rightarrow>
   (error + unit) \<times> ('st \<times> collection)" where
  "add_documents_to_index svc documents metadatas state =
     (case state of
        (st, coll) \<Rightarrow>
          (case generate_batch_embeddings svc documents st of
             (Inr embeddings, st') \<Rightarrow>
               (Inr (), (st', add_documents documents embeddings metadatas None coll))
           | (Inl e, st') \<Rightarrow> (Inl e, (st', coll))))"

text \<open>The dictionaries that \<open>_convert_questions_to_latex\<close> makes and
  \<open>_index_questions\<close> reads.\<close>

record latex_question =
  original_text :: string
  latex :: string
  lq_question_type :: string
  lq_number :: "string option"
  lq_page_number :: "int option"
  lq_confidence :: rat

definition optional_str :: "string option \<Rightarrow> pyvalue" where
  "optional_str v = (case v of None \<Rightarrow> PyNone | Some s \<Rightarrow> PyStr s)"

definition optional_int :: "int option \<Rightarrow> pyvalue" where
  "optional_int v = (case v of None \<Rightarrow> PyNone | Some n \<Rightarrow> PyInt n)"

text \<open>\<open>RAGPipeline._index_questions\<close>.\<close>

definition index_questions ::
  "'st service \<Rightarrow> latex_question list \<Rightarrow> int \<Rightarrow> string \<Rightarrow> 'st \<times> collection \<Rightarrow>
   (error + unit) \<times> ('st \<times> collection)" where
  "index_questions svc questions chapter topic state =
     (let documents =
            map (\<lambda>question. original_text question @ [newline, newline] @ ''LaTeX: '' @
                   latex question) questions;
          metadatas =
            map (\<lambda>question.
                   [(''chapter'', PyInt chapter),
                    (''topic'', PyStr topic),
                    (''question_type'', PyStr (lq_question_type question)),
                    (''page_number'', optional_int (lq_page_number question)),
                    (''question_number'', optional_str (lq_number question)),
                    (''confidence'', PyFloat (lq_confidence question))]) questions
      in add_documents_to_index svc documents (Some metadatas) state)"

text \<open>All the identifiers that the collection has been given, in order.\<close>

definition all_ids :: "collection \<Rightarrow> string list" where
  "all_ids coll = concat (map call_ids coll)"

section \<open>Properties of the validator\<close>

lemma brace_counter_Nil: "brace_counter [] = 0"
  by (simp add: brace_counter_def)

lemma brace_counter_Cons:
  "brace_counter (c # cs) =
     (if c = CHR ''{'' then 1 else if c = CHR ''}'' then - 1 else 0) + brace_counter cs"
  by (simp add: brace_counter_def)

text \<open>The loop started with the counter at \<open>k\<close> answers \<open>True\<close> exactly when the
  counter stays non-negative after every prefix and is zero at the end.\<close>

lemma braces_loop_counter:
  "0 \<le> k \<Longrightarrow>
   braces_loop k s \<longleftrightarrow>
     (\<forall>n\<le>length s. 0 \<le> k + brace_counter (take n s)) \<and> k + brace_counter s = 0"
proof (induction s arbitrary: k)
  case Nil
  then show ?case by (simp add: brace_counter_Nil)
next
  case (Cons c cs)
  let ?d = "(if c = CHR ''{'' then 1 else if c = CHR ''}'' then - 1 else 0) :: int"
  have step: "braces_loop k (c # cs) = (if k + ?d < 0 then False else braces_loop (k + ?d) cs)"
    by (simp add: Let_def)
  show ?case
  proof (cases "k + ?d < 0")
    case True
    then have "\<not> 0 \<le> k + brace_counter (take 1 (c # cs))"
      by (simp add: brace_counter_Cons brace_counter_Nil)
    then have "\<not> (\<forall>n\<le>length (c # cs). 0 \<le> k + brace_counter (take n (c # cs)))"
      by (metis One_nat_def Suc_leI length_Cons zero_less_Suc)
    with True step show ?thesis by simp
  next
    case False
    then have nn: "0 \<le> k + ?d" by simp
    have all_eq: "(\<forall>n\<le>length (c # cs). 0 \<le> k + brace_counter (take n (c # cs))) \<longleftrightarrow>
          (\<forall>n\<le>length cs. 0 \<le> (k + ?d) + brace_counter (take n cs))"
    proof
      assume h: "\<forall>n\<le>length (c # cs). 0 \<le> k + brace_counter (take n (c # cs))"
      show "\<forall>n\<le>length cs. 0 \<le> (k + ?d) + brace_counter (take n cs)"
      proof (intro allI impI)
        fix n assume "n \<le> length cs"
        then have "Suc n \<le> length (c # cs)" by simp
        with h have "0 \<le> k + brace_counter (take (Suc n) (c # cs))" by blast
        then show "0 \<le> (k + ?d) + brace_counter (take n cs)"
          by (simp add: brace_counter_Cons add.assoc)
      qed
    next
      assume h: "\<forall>n\<le>length cs. 0 \<le> (k + ?d) + brace_counter (take n cs)"
      show "\<forall>n\<le>length (c # cs). 0 \<le> k + brace_counter (take n (c # cs))"
      proof (intro allI impI)
        fix n assume n: "n \<le> length (c # cs)"
        show "0 \<le> k + brace_counter (take n (c # cs))"
        proof (cases n)
          case 0
          with Cons.prems show ?thesis by (simp add: brace_counter_Nil)
        next
          case (Suc m)
          with n have "m \<le> length cs" by simp
          with h have "0 \<le> (k + ?d) + brace_counter (take m cs)" by blast
          with Suc show ?thesis by (simp add: brace_counter_Cons add.assoc)
        qed
      qed
    qed
    have "braces_loop k (c # cs) = braces_loop (k + ?d) cs"
      using step False by simp
    also have "\<dots> \<longleftrightarrow> (\<forall>n\<le>length cs. 0 \<le> (k + ?d) + brace_counter (take n cs)) \<and>
        (k + ?d) + brace_counter cs = 0"
      using Cons.IH [OF nn] .
    also have "\<dots> \<longleftrightarrow> (\<forall>n\<le>length (c # cs). 0 \<le> k + brace_counter (take n (c # cs))) \<and>
        k + brace_counter (c # cs) = 0"
      using all_eq by (simp add: brace_counter_Cons add.assoc)
    finally show ?thesis .
  qed
qed

lemma check_balanced_braces_iff:
  "check_balanced_braces s \<longleftrightarrow>
     \<not> ((\<exists>n\<le>length s. brace_counter (take n s) < 0) \<or> brace_counter s \<noteq> 0)"
  using braces_loop_counter [of 0 s] by (auto simp: check_balanced_braces_def not_less)

text \<open>No other check of \<open>validate_latex\<close> produces the message of the brace
  check.\<close>

lemma brace_message_iff:
  "''Unbalanced braces in LaTeX'' \<in> set (validate_latex s) \<longleftrightarrow> \<not> check_balanced_braces s"
  by (auto simp: validate_latex_def check_common_latex_errors_def Let_def)

text \<open>
  Claim C3. For every string \<open>s\<close>, the list of errors that \<open>validate_latex\<close> returns
  holds the message of the brace check if and only if the running counter over the
  characters of \<open>s\<close> (one up on an opening brace, one down on a closing brace) is
  negative after some prefix of \<open>s\<close> or is not zero at the end of \<open>s\<close>.
\<close>

theorem validate_latex_brace_message:
  "''Unbalanced braces in LaTeX'' \<in> set (validate_latex s) \<longleftrightarrow>
     (\<exists>n\<le>length s. brace_counter (take n s) < 0) \<or> brace_counter s \<noteq> 0"
  using brace_message_iff check_balanced_braces_iff by blast

text \<open>The theorem at two texts: in \<open>}{\<close> the counter is negative after the first
  character though zero at the end, in \<open>{}\<close> it is never negative and ends at
  zero.\<close>

theorem validate_latex_brace_message_witness:
  "''Unbalanced braces in LaTeX'' \<in> set (validate_latex ''}{'') \<and>
   ''Unbalanced braces in LaTeX'' \<notin> set (validate_latex ''{}'')"
proof
  have "brace_counter (take 1 ''}{'') < 0"
    by (simp add: brace_counter_def)
  then have "\<exists>n\<le>length ''}{''. brace_counter (take n ''}{'') < 0"
    by (intro exI [of _ 1]) simp
  then show "''Unbalanced braces in LaTeX'' \<in> set (validate_latex ''}{'')"
    using validate_latex_brace_message [of "''}{''"] by blast
next
  have "\<And>n. n \<le> length ''{}'' \<Longrightarrow> \<not> brace_counter (take n ''{}'') < 0"
  proof -
    fix n :: nat assume "n \<le> length ''{}''"
    then have "n = 0 \<or> n = 1 \<or> n = 2" by auto
    then show "\<not> brace_counter (take n ''{}'') < 0"
      by (auto simp: brace_counter_def)
  qed
  moreover have "brace_counter ''{}'' = 0"
    by (simp add: brace_counter_def)
  ultimately show "''Unbalanced braces in LaTeX'' \<notin> set (validate_latex ''{}'')"
    using validate_latex_brace_message [of "''{}''"] by blast
qed

text \<open>The errors of the texts \<open>\frac12\<close>, \<open>\frac 12\<close> and \<open>\sqrt2\<close>.\<close>

lemma validate_latex_frac12:
  "validate_latex (backslash # ''frac12'') = [''Invalid fraction syntax'']"
  by code_simp

lemma validate_latex_frac_space_12:
  "validate_latex (backslash # ''frac 12'') =
     [''Missing braces after command'', ''Invalid fraction syntax'']"
  by code_simp

lemma validate_latex_sqrt2:
  "validate_latex (backslash # ''sqrt2'') = []"
  by code_simp

text \<open>
  Claim C6: validating \<open>\frac12\<close>, a fraction command not followed by a brace,
  gives a list of errors that is not empty and includes the message for missing
  braces after a command. The code does not do this. The pattern behind that
  message, written under the comment ``Check for missing braces after commands'',
  asks for white space between the command and the character that is not a brace,
  so it misses the command that is followed at once by such a character: on
  \<open>\frac12\<close> the list of errors is not empty, but it holds the message for invalid
  fraction syntax alone, and the message for missing braces is absent.
\<close>

theorem validate_latex_frac12_errors:
  "validate_latex (backslash # ''frac12'') \<noteq> [] \<and>
   validate_latex (backslash # ''frac12'') = [''Invalid fraction syntax''] \<and>
   ''Missing braces after command'' \<notin> set (validate_latex (backslash # ''frac12''))"
  by (simp add: validate_latex_frac12)

section \<open>Properties of the question extractor\<close>

subsection \<open>Splitting and joining lines\<close>

lemma join_Cons_head: "join sep ((c # p) # ps) = c # join sep (p # ps)"
  by (cases ps) simp_all

lemma join_Nil_head: "join [sep] ([] # p # ps) = sep # join [sep] (p # ps)"
  by simp

lemma split_chr_not_Nil: "split_chr sep s \<noteq> []"
  by (induction s) (auto split: list.splits)

text \<open>Joining the pieces of a split with the separator gives the text back.\<close>

lemma join_split_chr: "join [sep] (split_chr sep s) = s"
proof (induction s)
  case Nil
  show ?case by simp
next
  case (Cons c cs)
  obtain p ps where sp: "split_chr sep cs = p # ps"
    using split_chr_not_Nil [of sep cs] by (cases "split_chr sep cs") auto
  show ?case
  proof (cases "c = sep")
    case True
    then show ?thesis
      using Cons.IH sp by (simp del: join.simps add: join_Nil_head)
  next
    case False
    then show ?thesis
      using Cons.IH sp by (simp del: join.simps add: join_Cons_head)
  qed
qed

text \<open>When no line starts a block, the loop only gathers the lines.\<close>

lemma split_loop_no_start:
  "\<forall>line\<in>set lines. \<not> is_question_start line \<Longrightarrow>
   split_loop lines blocks current_block =
     (if current_block @ lines \<noteq> [] then blocks @ [join [newline] (current_block @ lines)]
      else blocks)"
  by (induction lines arbitrary: current_block) auto

lemma split_into_blocks_no_start:
  assumes "\<forall>line\<in>set (split_chr newline s). \<not> is_question_start line"
  shows "split_into_blocks s = [s]"
  using split_loop_no_start [OF assms, of "[]" "[]"]
  by (simp add: split_into_blocks_def split_chr_not_Nil join_split_chr)

subsection \<open>The questions of a text come from its blocks\<close>




subsection \<open>The doubles of the confidence\<close>

lemma dbl_half: "dbl (1 / 2) = 1 / 2"
  by code_simp

lemma dbl_fifth: "dbl (1 / 5) = 3602879701896397 / 18014398509481984"
  by code_simp

lemma dbl_tenth: "dbl (1 / 10) = 3602879701896397 / 36028797018963968"
  by code_simp

lemma dbl_one: "dbl 1 = 1"
  by code_simp

lemma dbl_four_fifths: "dbl (4 / 5) = 3602879701896397 / 4503599627370496"
  by code_simp

lemma fadd_5_2:
  "fadd (1 / 2) (3602879701896397 / 18014398509481984) = 3152519739159347 / 4503599627370496"
  by code_simp

lemma fadd_5_1:
  "fadd (1 / 2) (3602879701896397 / 36028797018963968) = 5404319552844595 / 9007199254740992"
  by code_simp

lemma fadd_6_1:
  "fadd (5404319552844595 / 9007199254740992) (3602879701896397 / 36028797018963968) =
     3152519739159347 / 4503599627370496"
  by code_simp

lemma fadd_7_1:
  "fadd (3152519739159347 / 4503599627370496) (3602879701896397 / 36028797018963968) =
     7205759403792793 / 9007199254740992"
  by code_simp

lemma fadd_8_1:
  "fadd (7205759403792793 / 9007199254740992) (3602879701896397 / 36028797018963968) =
     2026619832316723 / 2251799813685248"
  by code_simp

lemma fadd_9_1:
  "fadd (2026619832316723 / 2251799813685248) (3602879701896397 / 36028797018963968) =
     9007199254740991 / 9007199254740992"
  by code_simp

lemmas dbl_table =
  dbl_half dbl_fifth dbl_tenth dbl_one fadd_5_2 fadd_5_1 fadd_6_1 fadd_7_1 fadd_8_1 fadd_9_1


subsection \<open>The text \<open>1. Find the value of x^2 + 1/2.\<close>\<close>

lemma scenario_blocks:
  "split_into_blocks ''1. Find the value of x^2 + 1/2.'' = [''1. Find the value of x^2 + 1/2.'']"
  by code_simp

lemma scenario_is_question_block:
  "is_question_block ''1. Find the value of x^2 + 1/2.''"
  by code_simp

lemma scenario_clean_text:
  "clean_text ''1. Find the value of x^2 + 1/2.'' = ''1. Find the value of x^2 + 1/2.''"
  by code_simp

lemma scenario_number:
  "extract_question_number ''1. Find the value of x^2 + 1/2.'' = Some ''1''"
  by code_simp

lemma scenario_type:
  "determine_question_type ''1. Find the value of x^2 + 1/2.'' = PRACTICE"
  by code_simp

lemma scenario_no_question_mark:
  "\<not> contains ''1. Find the value of x^2 + 1/2.'' ''?''"
  by code_simp

lemma scenario_math:
  "contains_math ''1. Find the value of x^2 + 1/2.''"
  by code_simp

lemma scenario_keyword:
  "list_ex (\<lambda>kw. contains (lower ''1. Find the value of x^2 + 1/2.'') kw) question_keywords"
  by code_simp

lemma scenario_confidence_sum:
  "calculate_confidence ''1. Find the value of x^2 + 1/2.'' =
     min (fadd (fadd (fadd (dbl 0.5) (dbl 0.1)) (dbl 0.1)) (dbl 0.1)) (dbl 1.0)"
  unfolding calculate_confidence_def Let_def
  by (simp only: scenario_no_question_mark scenario_math scenario_keyword scenario_number
        truthy_def option.case if_True if_False list.distinct simp_thms)

lemma scenario_sum_value:
  "min (fadd (fadd (fadd (dbl 0.5) (dbl 0.1)) (dbl 0.1)) (dbl 0.1)) (dbl 1.0) =
     7205759403792793 / 9007199254740992"
  by (simp add: dbl_table)

lemma scenario_confidence:
  "calculate_confidence ''1. Find the value of x^2 + 1/2.'' = 7205759403792793 / 9007199254740992"
  by (simp only: scenario_confidence_sum scenario_sum_value)

lemma scenario_question:
  "extract_question ''1. Find the value of x^2 + 1/2.'' =
     Some \<lparr>q_text = ''1. Find the value of x^2 + 1/2.'', question_type = PRACTICE,
           number = Some ''1'', page_number = None,
           confidence = 7205759403792793 / 9007199254740992, metadata = None\<rparr>"
  unfolding extract_question_def Let_def scenario_clean_text scenario_number scenario_type
    scenario_confidence
  by simp

lemma scenario_extract:
  "extract (PyStr ''1. Find the value of x^2 + 1/2.'') =
     Inr [\<lparr>q_text = ''1. Find the value of x^2 + 1/2.'', question_type = PRACTICE,
           number = Some ''1'', page_number = None,
           confidence = 7205759403792793 / 9007199254740992, metadata = None\<rparr>]"
  by (simp add: extract_def postprocess_def validate_source_def scenario_blocks
        scenario_is_question_block scenario_question)

subsection \<open>Invalid sources\<close>

text \<open>
  Claim C8. \<open>extract\<close> raises the error for an invalid source exactly when its
  argument is the empty string or is not a string at all. It raises no other
  error, and for a string that is not empty it returns a list of questions.
\<close>

theorem extract_raises:
  "(extract source = Inl (ExtractionError ''Invalid source text'') \<longleftrightarrow>
      source = PyStr [] \<or> (\<forall>s. source \<noteq> PyStr s)) \<and>
   (\<forall>e. extract source = Inl e \<longrightarrow> e = ExtractionError ''Invalid source text'') \<and>
   ((\<exists>qs. extract source = Inr qs) \<longleftrightarrow> (\<exists>s. source = PyStr s \<and> s \<noteq> []))"
  by (cases source) (auto simp: extract_def validate_source_def)

text \<open>The theorem at \<open>None\<close>, at the empty string, at an integer, at a list and at
  the string \<open>x\<close>.\<close>

theorem extract_raises_witness:
  "extract PyNone = Inl (ExtractionError ''Invalid source text'') \<and>
   extract (PyStr []) = Inl (ExtractionError ''Invalid source text'') \<and>
   extract (PyInt 3) = Inl (ExtractionError ''Invalid source text'') \<and>
   extract (PyList [PyStr ''x'']) = Inl (ExtractionError ''Invalid source text'') \<and>
   (\<exists>qs. extract (PyStr ''x'') = Inr qs)"
proof -
  note a = extract_raises [of PyNone, THEN conjunct1]
  note b = extract_raises [of "PyStr []", THEN conjunct1]
  note c = extract_raises [of "PyInt 3", THEN conjunct1]
  note d = extract_raises [of "PyList [PyStr ''x'']", THEN conjunct1]
  note e = extract_raises [of "PyStr ''x''", THEN conjunct2, THEN conjunct2]
  from a b c d e show ?thesis by simp
qed

subsection \<open>A text without a line that starts a block\<close>

lemma find_x_lines:
  "\<forall>line\<in>set (split_chr newline ''Find x''). \<not> is_question_start line"
  by code_simp

lemma find_x_is_question_block: "is_question_block ''Find x''"
  by code_simp

lemma find_x_clean_text: "clean_text ''Find x'' = ''Find x''"
  by code_simp

lemma find_x_type: "determine_question_type ''Find x'' = PRACTICE"
  by code_simp

lemma find_x_number: "extract_question_number ''Find x'' = None"
  by code_simp

lemma find_x_signals:
  "\<not> contains ''Find x'' ''?'' \<and> \<not> contains_math ''Find x'' \<and>
   list_ex (\<lambda>kw. contains (lower ''Find x'') kw) question_keywords"
  by code_simp

lemma find_x_confidence:
  "calculate_confidence ''Find x'' = 5404319552844595 / 9007199254740992"
  by (simp add: calculate_confidence_def Let_def find_x_signals find_x_number truthy_def
        dbl_table)

lemma hello_lines:
  "\<forall>line\<in>set (split_chr newline ''hello''). \<not> is_question_start line"
  by code_simp

lemma hello_is_question_block: "\<not> is_question_block ''hello''"
  by code_simp

text \<open>
  Claim C9. Let \<open>s\<close> be a text that is not empty and in which no line starts a
  block (\<open>_is_question_start\<close> is false on every line). Then the whole text is the
  one block, and \<open>extract\<close> returns at most one question: the question made from
  \<open>s\<close> when \<open>s\<close> is a question block (it holds a question mark, one of the
  indicator words, or mathematical content) and its cleaned text is not empty,
  and the empty list otherwise.
\<close>

theorem extract_without_block_start:
  assumes "s \<noteq> []"
    and "\<forall>line\<in>set (split_chr newline s). \<not> is_question_start line"
  shows "split_into_blocks s = [s] \<and>
     extract (PyStr s) =
       Inr (if is_question_block s \<and> clean_text s \<noteq> []
            then [\<lparr>q_text = clean_text s,
                   question_type = determine_question_type s,
                   number = extract_question_number s,
                   page_number = None,
                   confidence = calculate_confidence s,
                   metadata = None\<rparr>]
            else []) \<and>
     (\<exists>qs. extract (PyStr s) = Inr qs \<and> length qs \<le> 1)"
  using assms(1) split_into_blocks_no_start [OF assms(2)]
  by (simp add: extract_def validate_source_def postprocess_def extract_question_def Let_def)

text \<open>The theorem at the text \<open>Find x\<close>, which gives one question, and at the text
  \<open>hello\<close>, which gives none.\<close>

theorem extract_without_block_start_witness:
  "extract (PyStr ''Find x'') =
     Inr [\<lparr>q_text = ''Find x'', question_type = PRACTICE, number = None, page_number = None,
           confidence = 5404319552844595 / 9007199254740992, metadata = None\<rparr>] \<and>
   extract (PyStr ''hello'') = Inr []"
  using extract_without_block_start [OF _ find_x_lines]
    extract_without_block_start [OF _ hello_lines]
  by (simp add: find_x_is_question_block find_x_clean_text find_x_type find_x_number
        find_x_confidence hello_is_question_block)

subsection \<open>The fields of every question\<close>



subsection \<open>The confidence of the text \<open>1. Find the value of x^2 + 1/2.\<close>\<close>

text \<open>
  Claim C1 says that for the text \<open>1. Find the value of x^2 + 1/2.\<close> the one
  question has a confidence of at least 0.8. The confidence is a sum of doubles,
  and the three additions of 0.1 to 0.5 end one step below the double nearest to
  0.8: the question that \<open>extract\<close> returns has the confidence
  0.7999999999999999, which is less than 0.8, both the number and the double.
\<close>

theorem extract_scenario_confidence_below:
  "extract (PyStr ''1. Find the value of x^2 + 1/2.'') =
     Inr [\<lparr>q_text = ''1. Find the value of x^2 + 1/2.'', question_type = PRACTICE,
           number = Some ''1'', page_number = None,
           confidence = 7205759403792793 / 9007199254740992, metadata = None\<rparr>] \<and>
   confidence \<lparr>q_text = ''1. Find the value of x^2 + 1/2.'', question_type = PRACTICE,
           number = Some ''1'', page_number = None,
           confidence = 7205759403792793 / 9007199254740992, metadata = None\<rparr> < 0.8 \<and>
   confidence \<lparr>q_text = ''1. Find the value of x^2 + 1/2.'', question_type = PRACTICE,
           number = Some ''1'', page_number = None,
           confidence = 7205759403792793 / 9007199254740992, metadata = None\<rparr> < dbl 0.8"
  by (simp add: scenario_extract dbl_four_fifths)

text \<open>
  Claim C1, amended. For the text \<open>1. Find the value of x^2 + 1/2.\<close>, \<open>extract\<close>
  returns exactly one question; its number is \<open>1\<close>, its type is the default,
  practice, and its confidence is the sum in double precision of the base 0.5 and
  of 0.1 for the mathematical content, 0.1 for the number and 0.1 for the keyword,
  with nothing added for a question mark, as there is none. That sum is the double
  0.7999999999999999, the one just below the double nearest to 0.8, so the
  confidence is at least 0.79 and less than 0.8.
\<close>

theorem extract_scenario:
  "extract (PyStr ''1. Find the value of x^2 + 1/2.'') =
     Inr [\<lparr>q_text = ''1. Find the value of x^2 + 1/2.'', question_type = PRACTICE,
           number = Some ''1'', page_number = None,
           confidence = fadd (fadd (fadd (dbl 0.5) (dbl 0.1)) (dbl 0.1)) (dbl 0.1),
           metadata = None\<rparr>] \<and>
   \<not> contains ''1. Find the value of x^2 + 1/2.'' ''?'' \<and>
   contains_math ''1. Find the value of x^2 + 1/2.'' \<and>
   truthy (extract_question_number ''1. Find the value of x^2 + 1/2.'') \<and>
   list_ex (\<lambda>kw. contains (lower ''1. Find the value of x^2 + 1/2.'') kw) question_keywords \<and>
   fadd (fadd (fadd (dbl 0.5) (dbl 0.1)) (dbl 0.1)) (dbl 0.1) =
     7205759403792793 / 9007199254740992 \<and>
   fadd (fadd (fadd (dbl 0.5) (dbl 0.1)) (dbl 0.1)) (dbl 0.1) = dbl 0.8 - 1 / 2 ^ 53 \<and>
   0.79 \<le> fadd (fadd (fadd (dbl 0.5) (dbl 0.1)) (dbl 0.1)) (dbl 0.1) \<and>
   fadd (fadd (fadd (dbl 0.5) (dbl 0.1)) (dbl 0.1)) (dbl 0.1) < 0.8"
proof -
  have sum: "fadd (fadd (fadd (dbl 0.5) (dbl 0.1)) (dbl 0.1)) (dbl 0.1) =
      7205759403792793 / 9007199254740992"
    by (simp add: dbl_table)
  show ?thesis
    unfolding sum
    by (simp add: scenario_extract scenario_no_question_mark scenario_math scenario_keyword
          scenario_number truthy_def dbl_four_fifths)
qed

end
